theory Spec2Isabelle
  imports Complex_Main
begin

section \<open>JavaScript values\<close>

text \<open>
  The primitive values that travel through the translator and the state tracker: user
  IDs, chat IDs, role identifiers and vote tags. A property that an object does not have
  reads as \<open>JUndefined\<close>. Numbers are the integral ones (IDs, votes, timestamps in
  milliseconds). On these values \<open>===\<close> and \<open>Array.prototype.indexOf\<close> compare like
  HOL's \<open>=\<close>.

  Strings are \<open>string\<close>: one \<open>char\<close> stands for one code unit below 256.
\<close>

datatype js_value = JUndefined | JNull | JBool bool | JNum int | JStr string

fun truthy :: "js_value \<Rightarrow> bool" where
  "truthy JUndefined = False"
| "truthy JNull = False"
| "truthy (JBool b) = b"
| "truthy (JNum n) = (n \<noteq> 0)"
| "truthy (JStr s) = (s \<noteq> [])"

datatype error = TypeError

section \<open>types: ChatType and UserRole\<close>

datatype ChatType = COMMAND | EMOTE | MESSAGE

record role =
  name :: string
  level :: int

definition NONE :: role where "NONE = \<lparr>name = ''none'', level = 0\<rparr>"
definition DJ :: role where "DJ = \<lparr>name = ''dj'', level = 1\<rparr>"
definition RESIDENT_DJ :: role where "RESIDENT_DJ = \<lparr>name = ''residentDj'', level = 2\<rparr>"
definition VIP :: role where "VIP = \<lparr>name = ''vip'', level = 2\<rparr>"
definition MOD :: role where "MOD = \<lparr>name = ''mod'', level = 3\<rparr>"
definition COOWNER :: role where "COOWNER = \<lparr>name = ''co-owner'', level = 4\<rparr>"
definition OWNER :: role where "OWNER = \<lparr>name = ''owner'', level = 5\<rparr>"

section \<open>The translator\<close>

subsection \<open>Vendor payloads\<close>

text \<open>
  Fields of vendor objects carry the suffix \<open>_d\<close>; \<open>user.id\<close> is \<open>id_d\<close>, and so on.
\<close>

record dubapi_user =
  id_d :: js_value
  username_d :: js_value
  role_d :: js_value
  dubs_d :: js_value
  created_d :: js_value
  playedCount_d :: js_value
  grab_d :: js_value
  vote_d :: js_value

record dubapi_media =
  fkid_d :: js_value
  songLength_d :: int
  name_d :: js_value

text \<open>The \<open>raw.user\<close> object of a chat payload, with its fields \<open>_id\<close>, \<open>username\<close> and \<open>roleid\<close>.\<close>

record dubapi_raw_user =
  id_r :: js_value
  username_r :: js_value
  roleid_r :: js_value

record dubapi_chat =
  id_c :: js_value
  message_c :: string
  type_c :: js_value
  user_c :: "dubapi_user option"
  raw_user_c :: "dubapi_raw_user option"

record dubapi_user_ref =
  id_m :: js_value
  username_m :: js_value

record dubapi_chat_delete =
  id_x :: js_value
  user_x :: "dubapi_user_ref option"

record dubapi_vote =
  dubtype_v :: js_value
  user_v :: "dubapi_user option"

subsection \<open>Translated objects\<close>

record user =
  dubs :: js_value
  joinDate :: js_value
  numberOfSongsPlayed :: js_value
  role :: "role option"
  userID_u :: js_value
  username_u :: js_value

record media =
  contentID :: js_value
  durationInSeconds :: rat
  fullTitle :: js_value

text \<open>
  The object built by \<open>translateChatEvent\<close>; \<open>command\<close> and \<open>args\<close> exist on
  command messages only.
\<close>

record chat_event =
  chatID_e :: js_value
  message_e :: string
  type_e :: ChatType
  userID_e :: js_value
  username_e :: js_value
  userRole_e :: "role option"
  command_e :: "string option"
  args_e :: "string list option"

text \<open>The object built by \<open>translateChatDeleteEvent\<close>: exactly these three properties.\<close>

record chat_delete_event =
  chatID_x :: js_value
  deleterID :: js_value
  deleterUsername :: js_value

text \<open>The object built by \<open>translateGrabEvent\<close>.\<close>

record grab_event =
  userID_g :: js_value

text \<open>The object built by \<open>translateVoteEvent\<close>: exactly the properties \<open>user\<close> and \<open>vote\<close>.\<close>

record vote_event =
  user_ve :: "user option"
  vote_ve :: int

subsection \<open>Translation functions\<close>

text \<open>
  \<open>translateRole\<close>: a \<open>switch\<close> over the vendor's role identifiers. The second case
  returns \<open>Types.UserRole.MANAGER\<close>, a key that the role table above does not have,
  so that case yields \<open>undefined\<close> (\<open>None\<close>).
\<close>

definition translateRole :: "js_value \<Rightarrow> role option" where
  "translateRole r =
     (if r = JStr ''5615fa9ae596154a5c000000'' then Some COOWNER
      else if r = JStr ''5615fd84e596150061000003'' then None
      else if r = JStr ''52d1ce33c38a06510c000001'' then Some MOD
      else if r = JStr ''5615fe1ee596154fc2000001'' then Some VIP
      else if r = JStr ''5615feb8e596154fc2000002'' then Some RESIDENT_DJ
      else if r = JStr ''564435423f6ba174d2000001'' then Some DJ
      else Some NONE)"

text \<open>
  \<open>translateDateTimestamp\<close>: the current time for a falsy timestamp, else the date made
  from the timestamp (kept here as the timestamp itself).
\<close>

definition translateDateTimestamp :: "int \<Rightarrow> js_value \<Rightarrow> js_value" where
  "translateDateTimestamp now ts = (if \<not> truthy ts then JNum now else ts)"

definition translateMediaObject :: "dubapi_media option \<Rightarrow> media option" where
  "translateMediaObject m =
     (case m of
        None \<Rightarrow> None
      | Some md \<Rightarrow> Some \<lparr>contentID = fkid_d md,
                        durationInSeconds = of_int (songLength_d md) / 1000,
                        fullTitle = name_d md\<rparr>)"

text \<open>\<open>translateUserObject\<close>: \<open>null\<close> for a falsy argument, else the object of \<open>translateUser\<close>.\<close>

definition translateUser :: "int \<Rightarrow> dubapi_user \<Rightarrow> user" where
  "translateUser now d =
     \<lparr>dubs = dubs_d d,
      joinDate = translateDateTimestamp now (created_d d),
      numberOfSongsPlayed = playedCount_d d,
      role = translateRole (role_d d),
      userID_u = id_d d,
      username_u = username_d d\<rparr>"

definition translateUserObject :: "int \<Rightarrow> dubapi_user option \<Rightarrow> user option" where
  "translateUserObject now dubapiDj =
     (case dubapiDj of None \<Rightarrow> None | Some d \<Rightarrow> Some (translateUser now d))"

definition translateUserJoinEvent :: "int \<Rightarrow> dubapi_user option \<Rightarrow> user option" where
  "translateUserJoinEvent now event_user = translateUserObject now event_user"

definition translateUserLeaveEvent :: "int \<Rightarrow> dubapi_user option \<Rightarrow> user option" where
  "translateUserLeaveEvent now event_user = translateUserObject now event_user"

subsubsection \<open>Chat\<close>

text \<open>
  \<open>/\/me /.test(s)\<close>: the pattern carries no anchor, so it looks for the four characters
  at every position of the string.
\<close>

fun regex_me_test :: "string \<Rightarrow> bool" where
  "regex_me_test [] = False"
| "regex_me_test (c # cs) = (take 4 (c # cs) = ''/me '' \<or> regex_me_test cs)"

text \<open>
  \<open>translateChatType\<close> returns the type and, as it assigns to \<open>event.message\<close> in the
  emote branch, the payload after the call. Both exits after the emote test return
  \<open>MESSAGE\<close> (the second one after logging).
\<close>

definition translateChatType :: "dubapi_chat \<Rightarrow> ChatType \<times> dubapi_chat" where
  "translateChatType event =
     (if take 1 (message_c event) = ''!'' then (COMMAND, event)
      else if length (message_c event) > 4 \<and> regex_me_test (message_c event)
        then (EMOTE, event\<lparr>message_c := drop 4 (message_c event)\<rparr>)
      else if type_c event = JStr ''chat-message'' then (MESSAGE, event)
      else (MESSAGE, event))"

text \<open>White space as \<open>\s\<close> and \<open>trim\<close> see it, among the code units below 256.\<close>

definition is_space :: "char \<Rightarrow> bool" where
  "is_space c = ((of_char c :: nat) \<in> {9, 10, 11, 12, 13, 32, 160})"

definition trim :: "string \<Rightarrow> string" where
  "trim s = rev (dropWhile is_space (rev (dropWhile is_space s)))"

text \<open>
  \<open>s.split(/\s+/)\<close>: \<open>cur\<close> holds the current piece reversed, \<open>insep\<close> says that the
  scan is inside a run of white space. A separator at either end leaves an empty piece
  there, and the empty string gives one empty piece.
\<close>

fun split_from :: "bool \<Rightarrow> string \<Rightarrow> string \<Rightarrow> string list" where
  "split_from insep cur [] = [rev cur]"
| "split_from insep cur (c # cs) =
     (if is_space c
      then (if insep then split_from True cur cs else rev cur # split_from True [] cs)
      else split_from False (c # cur) cs)"

definition split_spaces :: "string \<Rightarrow> string list" where
  "split_spaces s = split_from False [] s"

text \<open>
  \<open>translateChatEvent\<close>. The object literal is evaluated property by property, in the
  order written: \<open>message: event.message\<close> is read before \<open>type:
  translateChatType(event)\<close> runs, the user properties after it. Without
  \<open>event.user\<close> the properties come from \<open>event.raw.user\<close>, and reading them from a
  payload that has neither raises. \<open>words[0].replace("!", "")\<close> takes out the first
  \<open>!\<close> of the first piece, \<open>words.splice(1)\<close> gives the pieces after it.
\<close>

definition translateChatEvent :: "dubapi_chat \<Rightarrow> error + chat_event" where
  "translateChatEvent event0 =
     (let chatID = id_c event0;
          message = message_c event0;
          (ty, event) = translateChatType event0
      in case (case user_c event of
                 Some u \<Rightarrow> Some (id_d u, username_d u, role_d u)
               | None \<Rightarrow> (case raw_user_c event of
                            Some r \<Rightarrow> Some (id_r r, username_r r, roleid_r r)
                          | None \<Rightarrow> None)) of
           None \<Rightarrow> Inl TypeError
         | Some (uid, uname, urole) \<Rightarrow>
             (let obj = \<lparr>chatID_e = chatID, message_e = message, type_e = ty,
                         userID_e = uid, username_e = uname,
                         userRole_e = translateRole urole,
                         command_e = None, args_e = None\<rparr>
              in if ty = COMMAND
                 then (case split_spaces (trim (message_c event)) of
                         [] \<Rightarrow> Inl TypeError
                       | w # ws \<Rightarrow> Inr (obj\<lparr>command_e := Some (remove1 CHR ''!'' w),
                                                args_e := Some ws\<rparr>))
                 else Inr obj))"

subsubsection \<open>Chat delete, grab, vote\<close>

definition translateChatDeleteEvent :: "dubapi_chat_delete \<Rightarrow> error + chat_delete_event" where
  "translateChatDeleteEvent event =
     (case user_x event of
        None \<Rightarrow> Inl TypeError
      | Some u \<Rightarrow> Inr \<lparr>chatID_x = id_x event, deleterID = id_m u,
                      deleterUsername = username_m u\<rparr>)"

definition translateGrabEvent :: "js_value \<Rightarrow> grab_event" where
  "translateGrabEvent event = \<lparr>userID_g = event\<rparr>"

text \<open>\<open>translateVoteEvent\<close>: \<open>None\<close> is the \<open>return;\<close> for an unknown \<open>dubtype\<close>.\<close>

definition translateVoteEvent :: "int \<Rightarrow> dubapi_vote \<Rightarrow> vote_event option" where
  "translateVoteEvent now event =
     (if dubtype_v event \<noteq> JStr ''updub'' \<and> dubtype_v event \<noteq> JStr ''downdub'' then None
      else Some \<lparr>user_ve = translateUserObject now (user_v event),
                 vote_ve = (if dubtype_v event = JStr ''updub'' then 1 else -1)\<rparr>)"

section \<open>The state tracker\<close>

subsection \<open>Room state\<close>

record votes =
  grabs :: "js_value list"
  mehs :: "js_value list"
  woots :: "js_value list"

record play =
  media :: media
  startDate :: int
  user :: user
  votes :: votes

text \<open>
  An entry of the chat history. \<open>isDeleted\<close> is a property that \<open>onChat\<close> does not set
  and \<open>onChatDelete\<close> sets to \<open>true\<close>; the code reads it through \<open>!\<close> only, so the
  absent property is \<open>False\<close>. \<open>deletionTime\<close> is \<open>None\<close> while absent.
\<close>

record chat_obj =
  chatID :: js_value
  message :: string
  timestamp :: int
  type :: ChatType
  userID :: js_value
  username :: js_value
  wasUserMuted :: js_value
  isDeleted :: bool
  deletedByUserID :: js_value
  deletionTime :: "int option"

record queue_entry =
  media_q :: "media option"
  user_q :: "user option"

text \<open>\<open>waitList\<close> is not a property of the initial room state; it is \<open>None\<close> until assigned.\<close>

record room_state =
  chatHistory :: "chat_obj list"
  mediaQueue :: "queue_entry list"
  playHistory :: "play list"
  usersInRoom :: "user list"
  waitList :: "queue_entry list option"

text \<open>
  The options of \<open>config.DubBotBase\<close> that the code reads. The two history sizes are
  array lengths.
\<close>

record config =
  areCommandsCaseSensitive :: bool
  numberOfChatEventsToStore :: nat
  numberOfPlayedSongsToStore :: nat

text \<open>The object built by \<open>translateAdvanceEvent\<close>.\<close>

record previous_play =
  dj_p :: "user option"
  media_p :: "media option"
  grabs_p :: js_value
  mehs_p :: js_value
  woots_p :: js_value

record advance_event =
  incomingDJ :: user
  localStartDate :: int
  media_a :: media
  startDate_a :: int
  previousPlay :: "previous_play option"

subsection \<open>Event handlers\<close>

text \<open>
  \<open>xs.unshift(x)\<close> followed by \<open>if (xs.length > n) xs.length = n\<close>.
\<close>

definition unshift_capped :: "nat \<Rightarrow> 'a \<Rightarrow> 'a list \<Rightarrow> 'a list" where
  "unshift_capped n x xs = (if length (x # xs) > n then take n (x # xs) else x # xs)"

text \<open>The play that \<open>onAdvance\<close> builds from the event.\<close>

definition newPlay :: "advance_event \<Rightarrow> play" where
  "newPlay event =
     \<lparr>media = media_a event, startDate = startDate_a event, user = incomingDJ event,
      votes = \<lparr>grabs = [], mehs = [], woots = []\<rparr>\<rparr>"

definition onAdvance :: "config \<Rightarrow> advance_event \<Rightarrow> room_state \<Rightarrow> room_state" where
  "onAdvance cfg event st =
     (let maxPlayHistoryLength = numberOfPlayedSongsToStore cfg;
          play = newPlay event
      in st\<lparr>playHistory := unshift_capped maxPlayHistoryLength play (playHistory st)\<rparr>)"

text \<open>A sequence of Advance events, applied in order.\<close>

fun onAdvances :: "config \<Rightarrow> advance_event list \<Rightarrow> room_state \<Rightarrow> room_state" where
  "onAdvances cfg [] st = st"
| "onAdvances cfg (event # events) st = onAdvances cfg events (onAdvance cfg event st)"

text \<open>
  \<open>onChat\<close> reads \<open>event.isMuted\<close>, which is not among the properties of a translated
  chat event, so \<open>wasUserMuted\<close> is \<open>undefined\<close>.
\<close>

definition onChat :: "config \<Rightarrow> int \<Rightarrow> chat_event \<Rightarrow> room_state \<Rightarrow> room_state" where
  "onChat cfg now event st =
     (let maxChatHistoryLength = numberOfChatEventsToStore cfg;
          chatObj = \<lparr>chatID = chatID_e event, message = message_e event, timestamp = now,
                     type = type_e event, userID = userID_e event,
                     username = username_e event, wasUserMuted = JUndefined,
                     isDeleted = False, deletedByUserID = JUndefined,
                     deletionTime = None\<rparr>
      in st\<lparr>chatHistory := unshift_capped maxChatHistoryLength chatObj (chatHistory st)\<rparr>)"

text \<open>
  \<open>onChatDelete\<close> writes \<open>event.modUserID\<close> into the messages it marks. A translated
  chat-delete event has the properties \<open>chatID\<close>, \<open>deleterID\<close> and
  \<open>deleterUsername\<close>, and the dispatcher adds \<open>eventName\<close>; \<open>modUserID\<close> is none of
  them, so the read gives \<open>undefined\<close>.
\<close>

definition modUserID :: "chat_delete_event \<Rightarrow> js_value" where
  "modUserID event = JUndefined"

definition mark_deleted :: "chat_delete_event \<Rightarrow> int \<Rightarrow> chat_obj \<Rightarrow> chat_obj" where
  "mark_deleted event currentTime chatObj =
     chatObj\<lparr>isDeleted := True, deletedByUserID := modUserID event,
             deletionTime := Some currentTime\<rparr>"

text \<open>The index at which the first loop of \<open>onChatDelete\<close> breaks; \<open>None\<close> is \<open>-1\<close>.\<close>

fun findChatIndex :: "js_value \<Rightarrow> chat_obj list \<Rightarrow> nat option" where
  "findChatIndex cid [] = None"
| "findChatIndex cid (c # cs) =
     (if chatID c = cid then Some 0 else map_option Suc (findChatIndex cid cs))"

text \<open>
  The second loop of \<open>onChatDelete\<close>, run over the entries behind the matched index:
  the entries as they are afterwards, and the ones pushed to \<open>deletedMessages\<close>.
\<close>

fun cascade :: "chat_delete_event \<Rightarrow> int \<Rightarrow> js_value \<Rightarrow> chat_obj list
                 \<Rightarrow> chat_obj list \<times> chat_obj list" where
  "cascade event currentTime uid [] = ([], [])"
| "cascade event currentTime uid (c # cs) =
     (if userID c = uid \<and> \<not> isDeleted c
      then (let (cs', ds) = cascade event currentTime uid cs
            in (mark_deleted event currentTime c # cs', mark_deleted event currentTime c # ds))
      else (c # cs, []))"

text \<open>\<open>onChatDelete\<close> gives the new room state and the list attached as \<open>event.deletedMessages\<close>.\<close>

definition onChatDelete :: "int \<Rightarrow> chat_delete_event \<Rightarrow> room_state
                              \<Rightarrow> chat_obj list \<times> room_state" where
  "onChatDelete currentTime event st =
     (case findChatIndex (chatID_x event) (chatHistory st) of
        None \<Rightarrow> ([], st)
      | Some i \<Rightarrow>
          (let hist = (chatHistory st)[i := mark_deleted event currentTime (chatHistory st ! i)];
               deletedMessageUserID = userID (hist ! i);
               (rest, more) = cascade event currentTime deletedMessageUserID (drop (Suc i) hist)
           in (hist ! i # more, st\<lparr>chatHistory := take (Suc i) hist @ rest\<rparr>)))"

text \<open>
  \<open>playHistory[0]\<close> of an empty history is \<open>undefined\<close>, and reading \<open>.votes\<close> from
  it raises. \<open>xs.indexOf(x) < 0\<close> is \<open>x \<notin> set xs\<close>; \<open>xs.splice(xs.indexOf(x), 1)\<close>
  takes out the first \<open>x\<close>.
\<close>

definition onGrab :: "grab_event \<Rightarrow> room_state \<Rightarrow> error + room_state" where
  "onGrab event st =
     (case playHistory st of
        [] \<Rightarrow> Inl TypeError
      | currentSong # older \<Rightarrow>
          (if userID_g event \<notin> set (grabs (votes currentSong))
           then Inr (st\<lparr>playHistory :=
                   currentSong\<lparr>votes := (votes currentSong)
                      \<lparr>grabs := grabs (votes currentSong) @ [userID_g event]\<rparr>\<rparr> # older\<rparr>)
           else Inr st))"

definition onRoomPlaylistQueueUpdate :: "queue_entry list \<Rightarrow> room_state \<Rightarrow> room_state" where
  "onRoomPlaylistQueueUpdate queue st = st\<lparr>waitList := Some queue\<rparr>"

fun findUserIndex :: "user list \<Rightarrow> js_value \<Rightarrow> nat option" where
  "findUserIndex [] uid = None"
| "findUserIndex (u # us) uid =
     (if userID_u u = uid then Some 0 else map_option Suc (findUserIndex us uid))"

definition findUser :: "user list \<Rightarrow> js_value \<Rightarrow> user option" where
  "findUser users uid = (case findUserIndex users uid of Some index \<Rightarrow> Some (users ! index)
                         | None \<Rightarrow> None)"

definition removeUser :: "user list \<Rightarrow> js_value \<Rightarrow> user list" where
  "removeUser users uid = (case findUserIndex users uid of
                             Some index \<Rightarrow> take index users @ drop (Suc index) users
                           | None \<Rightarrow> users)"

definition onUserLeave :: "user \<Rightarrow> room_state \<Rightarrow> room_state" where
  "onUserLeave event st = st\<lparr>usersInRoom := removeUser (usersInRoom st) (userID_u event)\<rparr>"

definition onUserJoin :: "user \<Rightarrow> room_state \<Rightarrow> room_state" where
  "onUserJoin event st =
     (case findUser (usersInRoom st) (userID_u event) of
        Some existingUser \<Rightarrow> st
      | None \<Rightarrow> st\<lparr>usersInRoom := usersInRoom st @ [event]\<rparr>)"

text \<open>
  \<open>onVote\<close> starts with \<open>var userID = event.userID\<close>. A translated vote event has the
  properties \<open>user\<close> and \<open>vote\<close>, and the dispatcher adds \<open>eventName\<close>; the voter's
  ID is at \<open>event.user.userID\<close>, and \<open>event.userID\<close> reads as \<open>undefined\<close>.
\<close>

definition userID_ve :: "vote_event \<Rightarrow> js_value" where
  "userID_ve event = JUndefined"

text \<open>The body of \<open>onVote\<close> behind the two reads, for the user ID and the vote that were read.\<close>

definition recordVote :: "js_value \<Rightarrow> int \<Rightarrow> room_state \<Rightarrow> error + room_state" where
  "recordVote uid vote st =
     (case playHistory st of
        [] \<Rightarrow> Inl TypeError
      | currentSong # older \<Rightarrow>
          (let w0 = woots (votes currentSong);
               w1 = (if uid \<in> set w0 then remove1 uid w0 else w0);
               m0 = mehs (votes currentSong);
               m1 = (if uid \<in> set m0 then remove1 uid m0 else m0);
               w2 = (if vote = 1 then w1 @ [uid] else w1);
               m2 = (if vote = 1 then m1
                     else if vote = -1 then m1 @ [uid] else m1)
           in Inr (st\<lparr>playHistory :=
                 currentSong\<lparr>votes := (votes currentSong)\<lparr>mehs := m2, woots := w2\<rparr>\<rparr> # older\<rparr>)))"

definition onVote :: "vote_event \<Rightarrow> room_state \<Rightarrow> error + room_state" where
  "onVote event st = recordVote (userID_ve event) (vote_ve event) st"

subsection \<open>Initialisation\<close>

text \<open>
  The loop of \<open>populateUsers\<close> that seeds the votes of the current play from the
  vendor's user objects.
\<close>

fun seed_votes :: "dubapi_user list \<Rightarrow> votes \<Rightarrow> votes" where
  "seed_votes [] v = v"
| "seed_votes (u # us) v =
     (let v1 = (if truthy (grab_d u) then v\<lparr>grabs := grabs v @ [id_d u]\<rparr> else v);
          v2 = (if vote_d u = JNum 1 then v1\<lparr>woots := woots v1 @ [id_d u]\<rparr>
                else if vote_d u = JNum (-1) then v1\<lparr>mehs := mehs v1 @ [id_d u]\<rparr>
                else v1)
      in seed_votes us v2)"

text \<open>
  \<open>populateUsers\<close>, given what \<open>getMedia\<close>, \<open>getDJ\<close>, \<open>getUsers\<close> and
  \<open>getTimeElapsed\<close> return and the current time. The result of \<open>getQueue\<close> is stored
  in a local variable and not used.
\<close>

definition populateUsers :: "int \<Rightarrow> dubapi_media option \<Rightarrow> dubapi_user option
      \<Rightarrow> dubapi_user list \<Rightarrow> int \<Rightarrow> room_state \<Rightarrow> room_state" where
  "populateUsers now getMedia getDJ users elapsedTime st =
     (let currentSong = translateMediaObject getMedia;
          currentDj = translateUserObject now getDJ;
          st1 = st\<lparr>usersInRoom := usersInRoom st @ map (translateUser now) users\<rparr>
      in case (currentSong, currentDj) of
           (Some song, Some dj) \<Rightarrow>
             (let currentPlay = \<lparr>media = song, startDate = now - elapsedTime * 1000, user = dj,
                                 votes = seed_votes users \<lparr>grabs = [], mehs = [], woots = []\<rparr>\<rparr>
              in st1\<lparr>playHistory := currentPlay # playHistory st1\<rparr>)
         | _ \<Rightarrow> st1)"

text \<open>The room state that \<open>init\<close> creates, and \<open>init\<close> itself.\<close>

definition empty_room :: room_state where
  "empty_room = \<lparr>chatHistory = [], mediaQueue = [], playHistory = [], usersInRoom = [],
                  waitList = None\<rparr>"

definition init :: "int \<Rightarrow> dubapi_media option \<Rightarrow> dubapi_user option
      \<Rightarrow> dubapi_user list \<Rightarrow> int \<Rightarrow> room_state" where
  "init now getMedia getDJ users elapsedTime =
     populateUsers now getMedia getDJ users elapsedTime empty_room"

subsection \<open>Events as the tracker's handlers receive them\<close>

datatype event =
    ADVANCE advance_event
  | CHAT chat_event
  | CHAT_DELETE chat_delete_event
  | GRAB grab_event
  | ROOM_PLAYLIST_QUEUE_UPDATE "queue_entry list"
  | USER_LEAVE user
  | USER_JOIN user
  | VOTE vote_event

text \<open>The handler that \<open>init\<close> registers for each event, run at time \<open>now\<close>.\<close>

fun handle :: "config \<Rightarrow> int \<Rightarrow> event \<Rightarrow> room_state \<Rightarrow> error + room_state" where
  "handle cfg now (ADVANCE e) st = Inr (onAdvance cfg e st)"
| "handle cfg now (CHAT e) st = Inr (onChat cfg now e st)"
| "handle cfg now (CHAT_DELETE e) st = Inr (snd (onChatDelete now e st))"
| "handle cfg now (GRAB e) st = onGrab e st"
| "handle cfg now (ROOM_PLAYLIST_QUEUE_UPDATE q) st = Inr (onRoomPlaylistQueueUpdate q st)"
| "handle cfg now (USER_LEAVE e) st = Inr (onUserLeave e st)"
| "handle cfg now (USER_JOIN e) st = Inr (onUserJoin e st)"
| "handle cfg now (VOTE e) st = onVote e st"

text \<open>
  By how many places an event moves the plays that are already in the history: Advance
  puts one play in front of them, the other events leave each play where it is.
\<close>

fun shift :: "event \<Rightarrow> nat" where
  "shift (ADVANCE e) = 1"
| "shift _ = 0"

subsection \<open>From the vendor's payload to the handler\<close>

text \<open>
  The dispatcher of the bot, for the vendor events below: it translates the payload,
  drops the event when the translator gives a falsy result, and calls the listeners in
  the order of their registration. The tracker's handler is the first one, and it is the
  one that touches the room state.
\<close>

datatype dubapi_event =
    Chat_message dubapi_chat
  | Delete_chat_message dubapi_chat_delete
  | Room_playlist_queue_update_grabs js_value
  | Room_playlist_dub dubapi_vote
  | User_join "dubapi_user option"
  | User_leave "dubapi_user option"

fun dispatch :: "config \<Rightarrow> int \<Rightarrow> dubapi_event \<Rightarrow> room_state \<Rightarrow> error + room_state" where
  "dispatch cfg now (Chat_message p) st =
     (case translateChatEvent p of Inl e \<Rightarrow> Inl e | Inr ev \<Rightarrow> handle cfg now (CHAT ev) st)"
| "dispatch cfg now (Delete_chat_message p) st =
     (case translateChatDeleteEvent p of
        Inl e \<Rightarrow> Inl e
      | Inr ev \<Rightarrow> handle cfg now (CHAT_DELETE ev) st)"
| "dispatch cfg now (Room_playlist_queue_update_grabs p) st =
     handle cfg now (GRAB (translateGrabEvent p)) st"
| "dispatch cfg now (Room_playlist_dub p) st =
     (case translateVoteEvent now p of None \<Rightarrow> Inr st | Some ev \<Rightarrow> handle cfg now (VOTE ev) st)"
| "dispatch cfg now (User_join p) st =
     (case translateUserJoinEvent now p of
        None \<Rightarrow> Inr st
      | Some ev \<Rightarrow> handle cfg now (USER_JOIN ev) st)"
| "dispatch cfg now (User_leave p) st =
     (case translateUserLeaveEvent now p of
        None \<Rightarrow> Inr st
      | Some ev \<Rightarrow> handle cfg now (USER_LEAVE ev) st)"

text \<open>Vendor events in the order of their arrival, each with the time of its arrival.\<close>

fun dispatch_all :: "config \<Rightarrow> (int \<times> dubapi_event) list \<Rightarrow> room_state
                       \<Rightarrow> error + room_state" where
  "dispatch_all cfg [] st = Inr st"
| "dispatch_all cfg ((now, p) # ps) st =
     (case dispatch cfg now p st of Inl e \<Rightarrow> Inl e | Inr st' \<Rightarrow> dispatch_all cfg ps st')"

section \<open>The command handler\<close>

text \<open>
  A registered command module: its triggers, its \<open>minimumRole\<close> when it exports one, and
  whether it exports an \<open>insufficientPermissionsHandler\<close>. Registration keeps a module
  only if it has \<open>triggers\<close> and a \<open>handler\<close>.
\<close>

record command =
  triggers :: "string list"
  minimumRole :: "role option"
  insufficientPermissionsHandler :: bool

text \<open>
  What the command handler calls: the \<open>handler\<close> or the
  \<open>insufficientPermissionsHandler\<close> of the command at an index of \<open>commands\<close>. The
  callbacks belong to the modules; they are taken to return.
\<close>

datatype call = Handler nat | PermissionsHandler nat

text \<open>\<open>toLowerCase\<close> on the code units below 256: A to Z, and the capital letters from 192 to 222.\<close>

definition lowerChar :: "char \<Rightarrow> char" where
  "lowerChar c =
     (let n = (of_char c :: nat)
      in if (65 \<le> n \<and> n \<le> 90) \<or> (192 \<le> n \<and> n \<le> 222 \<and> n \<noteq> 215)
         then char_of (n + 32) else c)"

definition toLowerCase :: "string \<Rightarrow> string" where
  "toLowerCase s = map lowerChar s"

definition prepend :: "call \<Rightarrow> error + call list \<Rightarrow> error + call list" where
  "prepend c r = (case r of Inl e \<Rightarrow> Inl e | Inr cs \<Rightarrow> Inr (c # cs))"

text \<open>
  The \<open>for\<close> loop over \<open>commands\<close> from index \<open>i\<close> on. Reading \<open>.level\<close> from a
  \<open>userRole\<close> that is \<open>undefined\<close> raises.
\<close>

fun run_commands :: "string \<Rightarrow> role option \<Rightarrow> nat \<Rightarrow> command list \<Rightarrow> error + call list" where
  "run_commands commandName userRole i [] = Inr []"
| "run_commands commandName userRole i (command # rest) =
     (if commandName \<in> set (triggers command)
      then (case minimumRole command of
              None \<Rightarrow> prepend (Handler i) (run_commands commandName userRole (Suc i) rest)
            | Some minRole \<Rightarrow>
                (case userRole of
                   None \<Rightarrow> Inl TypeError
                 | Some r \<Rightarrow>
                     if level r < level minRole
                     then (if insufficientPermissionsHandler command
                           then prepend (PermissionsHandler i)
                                  (run_commands commandName userRole (Suc i) rest)
                           else run_commands commandName userRole (Suc i) rest)
                     else prepend (Handler i) (run_commands commandName userRole (Suc i) rest)))
      else run_commands commandName userRole (Suc i) rest)"

text \<open>The name that the loop looks up in the triggers, and the test it makes on a command.\<close>

text \<open>
  When the loop calls the \<open>handler\<close> of a command, and when its
  \<open>insufficientPermissionsHandler\<close>, for a command name and the role of the user.
\<close>

definition handler_due :: "string \<Rightarrow> role \<Rightarrow> command \<Rightarrow> bool" where
  "handler_due commandName r command =
     (commandName \<in> set (triggers command)
      \<and> (case minimumRole command of None \<Rightarrow> True | Some m \<Rightarrow> \<not> level r < level m))"

definition hook_due :: "string \<Rightarrow> role \<Rightarrow> command \<Rightarrow> bool" where
  "hook_due commandName r command =
     (commandName \<in> set (triggers command)
      \<and> (case minimumRole command of None \<Rightarrow> False | Some m \<Rightarrow> level r < level m)
      \<and> insufficientPermissionsHandler command)"

definition commandName_of :: "config \<Rightarrow> string \<Rightarrow> string" where
  "commandName_of cfg tok = (if \<not> areCommandsCaseSensitive cfg then toLowerCase tok else tok)"

definition matches :: "config \<Rightarrow> string \<Rightarrow> command \<Rightarrow> bool" where
  "matches cfg tok command = (commandName_of cfg tok \<in> set (triggers command))"

text \<open>The function returned by \<open>_createCommandHandler(commands)\<close>, applied to a chat event.\<close>

definition commandHandler :: "config \<Rightarrow> command list \<Rightarrow> chat_event \<Rightarrow> error + call list" where
  "commandHandler cfg commands chatEvent =
     (case command_e chatEvent of
        None \<Rightarrow> Inr []
      | Some tok \<Rightarrow>
          if tok = [] then Inr []
          else run_commands (commandName_of cfg tok) (userRole_e chatEvent) 0 commands)"

section \<open>Outbound actions of the bot\<close>

text \<open>
  Each action hands a request and a completion function to the vendor client, which
  answers at once whether the request was queued. As the comment in \<open>forceSkip\<close> says,
  the completion function runs (later, once) exactly when the request was queued. An
  action is modelled by the request it makes and by what happens to the caller's
  callback: the arguments it is called with, in order, or the error raised on the way.
  \<open>cb\<close> says whether the caller passed a callback, \<open>queued\<close> what the client answered.
\<close>

datatype request =
    ModerateForceSkip | Grab | JoinBooth | LeaveBooth | Meh
  | ModerateMoveDJ js_value int | Woot

text \<open>\<open>function() { if (callback) { callback(true); } }\<close>\<close>

definition guarded_completion :: "bool \<Rightarrow> error + bool list" where
  "guarded_completion cb = (if cb then Inr [True] else Inr [])"

text \<open>\<open>function() { callback(true); }\<close>: calling an \<open>undefined\<close> callback raises.\<close>

definition unguarded_completion :: "bool \<Rightarrow> error + bool list" where
  "unguarded_completion cb = (if cb then Inr [True] else Inl TypeError)"

definition forceSkip :: "bool \<Rightarrow> bool \<Rightarrow> request \<times> (error + bool list)" where
  "forceSkip cb wasSkipQueued =
     (ModerateForceSkip,
      if \<not> wasSkipQueued \<and> cb then Inr [False]
      else if wasSkipQueued then guarded_completion cb else Inr [])"

definition grabSong :: "bool \<Rightarrow> bool \<Rightarrow> request \<times> (error + bool list)" where
  "grabSong cb wasGrabQueued =
     (Grab,
      if \<not> wasGrabQueued \<and> cb then Inr [False]
      else if wasGrabQueued then guarded_completion cb else Inr [])"

definition joinWaitList :: "bool \<Rightarrow> bool \<Rightarrow> request \<times> (error + bool list)" where
  "joinWaitList cb wasJoinQueued =
     (JoinBooth,
      if \<not> wasJoinQueued \<and> cb then Inr [False]
      else if wasJoinQueued then guarded_completion cb else Inr [])"

definition leaveWaitList :: "bool \<Rightarrow> bool \<Rightarrow> request \<times> (error + bool list)" where
  "leaveWaitList cb wasLeaveQueued =
     (LeaveBooth,
      if \<not> wasLeaveQueued \<and> cb then Inr [False]
      else if wasLeaveQueued then guarded_completion cb else Inr [])"

definition mehSong :: "bool \<Rightarrow> bool \<Rightarrow> request \<times> (error + bool list)" where
  "mehSong cb wasMehQueued =
     (Meh,
      if \<not> wasMehQueued \<and> cb then Inr [False]
      else if wasMehQueued then guarded_completion cb else Inr [])"

definition moveDjInWaitList :: "js_value \<Rightarrow> int \<Rightarrow> bool \<Rightarrow> bool
                                  \<Rightarrow> request \<times> (error + bool list)" where
  "moveDjInWaitList uid newPosition cb wasRequestQueued =
     (ModerateMoveDJ uid newPosition,
      if \<not> wasRequestQueued \<and> cb then Inr [False]
      else if wasRequestQueued then unguarded_completion cb else Inr [])"

definition wootSong :: "bool \<Rightarrow> bool \<Rightarrow> request \<times> (error + bool list)" where
  "wootSong cb wasWootQueued =
     (Woot,
      if \<not> wasWootQueued \<and> cb then Inr [False]
      else if wasWootQueued then guarded_completion cb else Inr [])"

section \<open>Sample inputs\<close>

definition sample_config :: config where
  "sample_config = \<lparr>areCommandsCaseSensitive = False, numberOfChatEventsToStore = 10,
                     numberOfPlayedSongsToStore = 2\<rparr>"

definition sample_dubapi_user :: "string \<Rightarrow> dubapi_user" where
  "sample_dubapi_user uid =
     \<lparr>id_d = JStr uid, username_d = JStr uid, role_d = JUndefined, dubs_d = JNum 0,
      created_d = JNum 1, playedCount_d = JNum 0, grab_d = JUndefined, vote_d = JUndefined\<rparr>"

definition sample_dubapi_media :: dubapi_media where
  "sample_dubapi_media = \<lparr>fkid_d = JStr ''yt1'', songLength_d = 180000, name_d = JStr ''song''\<rparr>"

definition sample_user :: "string \<Rightarrow> user" where
  "sample_user uid = translateUser 0 (sample_dubapi_user uid)"

definition sample_advance :: "string \<Rightarrow> int \<Rightarrow> advance_event" where
  "sample_advance uid t =
     \<lparr>incomingDJ = sample_user uid, localStartDate = t,
      media_a = \<lparr>contentID = JStr ''yt1'', durationInSeconds = 180, fullTitle = JStr ''song''\<rparr>,
      startDate_a = t, previousPlay = None\<rparr>"

definition sample_chat :: "string \<Rightarrow> string \<Rightarrow> string \<Rightarrow> dubapi_chat" where
  "sample_chat cid uid msg =
     \<lparr>id_c = JStr cid, message_c = msg, type_c = JStr ''chat-message'',
      user_c = Some (sample_dubapi_user uid), raw_user_c = None\<rparr>"

text \<open>A chat payload whose user carries the given vendor role identifier.\<close>

definition sample_role_chat :: "string \<Rightarrow> string \<Rightarrow> string \<Rightarrow> string \<Rightarrow> dubapi_chat" where
  "sample_role_chat cid uid roleid msg =
     \<lparr>id_c = JStr cid, message_c = msg, type_c = JStr ''chat-message'',
      user_c = Some ((sample_dubapi_user uid)\<lparr>role_d := JStr roleid\<rparr>), raw_user_c = None\<rparr>"

text \<open>The chat payload translated and handed to the command handler, as the dispatcher does.\<close>

definition dispatch_command :: "config \<Rightarrow> command list \<Rightarrow> dubapi_chat \<Rightarrow> error + call list" where
  "dispatch_command cfg commands p =
     (case translateChatEvent p of Inl e \<Rightarrow> Inl e | Inr ev \<Rightarrow> commandHandler cfg commands ev)"

definition sample_chat_delete :: "string \<Rightarrow> string \<Rightarrow> dubapi_chat_delete" where
  "sample_chat_delete cid modid =
     \<lparr>id_x = JStr cid, user_x = Some \<lparr>id_m = JStr modid, username_m = JStr modid\<rparr>\<rparr>"

definition sample_vote :: "string \<Rightarrow> string \<Rightarrow> dubapi_vote" where
  "sample_vote dubtype uid =
     \<lparr>dubtype_v = JStr dubtype, user_v = Some (sample_dubapi_user uid)\<rparr>"

definition sample_command :: "string list \<Rightarrow> role option \<Rightarrow> bool \<Rightarrow> command" where
  "sample_command ts m h =
     \<lparr>triggers = ts, minimumRole = m, insufficientPermissionsHandler = h\<rparr>"

definition sample_command_event :: "string \<Rightarrow> role option \<Rightarrow> chat_event" where
  "sample_command_event tok r =
     \<lparr>chatID_e = JStr ''c1'', message_e = CHR ''!'' # tok, type_e = COMMAND,
      userID_e = JStr ''u1'', username_e = JStr ''u1'', userRole_e = r,
      command_e = Some tok, args_e = Some []\<rparr>"

text \<open>The chat ID and the deletion mark of every entry of the chat history, newest first.\<close>

definition deletion_marks :: "room_state \<Rightarrow> (js_value \<times> bool) list" where
  "deletion_marks st = map (\<lambda>c. (chatID c, isDeleted c)) (chatHistory st)"

text \<open>For every marked entry of the chat history: its chat ID, who deleted it and when.\<close>

definition deletion_records :: "room_state \<Rightarrow> (js_value \<times> js_value \<times> int option) list" where
  "deletion_records st =
     map (\<lambda>c. (chatID c, deletedByUserID c, deletionTime c)) (filter isDeleted (chatHistory st))"

text \<open>The woots and the mehs of the current play.\<close>

definition current_votes :: "room_state \<Rightarrow> (js_value list \<times> js_value list) option" where
  "current_votes st =
     (case playHistory st of
        [] \<Rightarrow> None
      | currentSong # older \<Rightarrow> Some (woots (votes currentSong), mehs (votes currentSong)))"

text \<open>A room whose current play has been grabbed by \<open>u1\<close>.\<close>

definition sample_room :: room_state where
  "sample_room =
     empty_room\<lparr>playHistory :=
       [(newPlay (sample_advance ''dj'' 1))
          \<lparr>votes := \<lparr>grabs = [JStr ''u1''], mehs = [], woots = []\<rparr>\<rparr>]\<rparr>"

section \<open>Play history under Advance events\<close>

lemma unshift_capped_take: "unshift_capped n x xs = take n (x # xs)"
  by (simp add: unshift_capped_def)

lemma take_onAdvances:
  "take (numberOfPlayedSongsToStore cfg) (playHistory (onAdvances cfg evs st))
   = take (numberOfPlayedSongsToStore cfg) (map newPlay (rev evs) @ playHistory st)"
proof (induction evs arbitrary: st)
  case Nil
  show ?case by simp
next
  case (Cons e es)
  have "take (numberOfPlayedSongsToStore cfg) (playHistory (onAdvances cfg (e # es) st))
      = take (numberOfPlayedSongsToStore cfg)
          (map newPlay (rev es)
             @ take (numberOfPlayedSongsToStore cfg) (newPlay e # playHistory st))"
    using Cons.IH [of "onAdvance cfg e st"]
    by (simp add: onAdvance_def unshift_capped_take)
  also have "\<dots> = take (numberOfPlayedSongsToStore cfg)
          (map newPlay (rev es) @ newPlay e # playHistory st)"
    by (simp add: take_add min_def)
  finally show ?case by simp
qed

lemma onAdvances_snoc:
  "onAdvances cfg (es @ [e]) st = onAdvance cfg e (onAdvances cfg es st)"
  by (induction es arbitrary: st) simp_all

lemma length_onAdvance:
  "length (playHistory (onAdvance cfg e st)) \<le> numberOfPlayedSongsToStore cfg"
  by (simp add: onAdvance_def unshift_capped_take)

lemma length_onAdvances:
  assumes "evs \<noteq> []"
  shows "length (playHistory (onAdvances cfg evs st)) \<le> numberOfPlayedSongsToStore cfg"
proof -
  obtain es e where "evs = es @ [e]"
    using assms by (cases evs rule: rev_cases) auto
  then show ?thesis
    by (simp only: onAdvances_snoc length_onAdvance)
qed

text \<open>
  Claim C4. After any non-empty sequence of Advance events, applied to any room state,
  the play history is no longer than \<open>numberOfPlayedSongsToStore\<close>, and it consists of
  the plays of these events, the latest event first, followed by the plays that were there
  before, cut at the maximum. As the sequence is arbitrary, this holds after each event of
  a longer sequence.
\<close>

theorem advance_history_capped_recent_first:
  assumes "evs \<noteq> []"
  shows "length (playHistory (onAdvances cfg evs st)) \<le> numberOfPlayedSongsToStore cfg
       \<and> playHistory (onAdvances cfg evs st)
           = take (numberOfPlayedSongsToStore cfg) (map newPlay (rev evs) @ playHistory st)"
proof -
  have len: "length (playHistory (onAdvances cfg evs st)) \<le> numberOfPlayedSongsToStore cfg"
    using assms by (rule length_onAdvances)
  then have "playHistory (onAdvances cfg evs st)
      = take (numberOfPlayedSongsToStore cfg) (playHistory (onAdvances cfg evs st))"
    by simp
  with len show ?thesis
    by (simp only: take_onAdvances)
qed

theorem advance_history_capped_recent_first_witness:
  "[sample_advance ''a'' 1, sample_advance ''b'' 2, sample_advance ''c'' 3] \<noteq> []
 \<and> numberOfPlayedSongsToStore sample_config = 2
 \<and> playHistory (onAdvances sample_config
        [sample_advance ''a'' 1, sample_advance ''b'' 2, sample_advance ''c'' 3] empty_room)
     = [newPlay (sample_advance ''c'' 3), newPlay (sample_advance ''b'' 2)]"
  using advance_history_capped_recent_first
          [of "[sample_advance ''a'' 1, sample_advance ''b'' 2, sample_advance ''c'' 3]"
              sample_config empty_room]
  by (simp add: sample_config_def empty_room_def)

section \<open>Grabs and votes on the current play\<close>

lemma playHistory_onChatDelete:
  "playHistory (snd (onChatDelete t e st)) = playHistory st"
  by (simp add: onChatDelete_def Let_def split: option.splits prod.splits)

lemma onGrab_grabs:
  assumes "onGrab e st = Inr st'"
  shows "length (playHistory st') = length (playHistory st)
       \<and> (\<forall>i < length (playHistory st).
            set (grabs (votes (playHistory st ! i)))
              \<subseteq> set (grabs (votes (playHistory st' ! i))))"
proof (cases "playHistory st")
  case Nil
  with assms show ?thesis by (simp add: onGrab_def)
next
  case (Cons cur older)
  show ?thesis
  proof (cases "userID_g e \<in> set (grabs (votes cur))")
    case True
    with Cons assms have "st' = st" by (simp add: onGrab_def)
    then show ?thesis by simp
  next
    case False
    with Cons assms have "playHistory st' =
        cur\<lparr>votes := (votes cur)\<lparr>grabs := grabs (votes cur) @ [userID_g e]\<rparr>\<rparr> # older"
      by (auto simp: onGrab_def)
    with Cons show ?thesis
      by (auto simp: nth_Cons split: nat.splits)
  qed
qed

lemma onVote_grabs:
  assumes "onVote e st = Inr st'"
  shows "length (playHistory st') = length (playHistory st)
       \<and> (\<forall>i < length (playHistory st).
            grabs (votes (playHistory st' ! i)) = grabs (votes (playHistory st ! i)))"
proof (cases "playHistory st")
  case Nil
  with assms show ?thesis by (simp add: onVote_def recordVote_def)
next
  case (Cons cur older)
  with assms obtain w m where "playHistory st' =
        cur\<lparr>votes := (votes cur)\<lparr>mehs := m, woots := w\<rparr>\<rparr> # older"
    by (auto simp: onVote_def recordVote_def Let_def)
  with Cons show ?thesis
    by (auto simp: nth_Cons split: nat.splits)
qed

lemma onAdvance_nth:
  assumes "Suc i < length (playHistory (onAdvance cfg e st))"
  shows "i < length (playHistory st)
       \<and> playHistory (onAdvance cfg e st) ! Suc i = playHistory st ! i"
  using assms by (simp add: onAdvance_def unshift_capped_take)

text \<open>
  Claim C9. A Grab event for a user ID that is already among the grabs of the current play
  leaves the room state, and so the grabs, as they are. No event of the tracker takes a
  user ID out of the grabs of a play: the events other than Advance keep every play at its
  place in the history, Advance moves every play one place back (\<open>shift\<close>), and the play
  that is found at the new place has all the grabs that the play had before. A play leaves
  the history only as a whole, when Advance cuts the history at its maximum.
\<close>

theorem grab_idempotent_monotone:
  "(playHistory st = currentSong # older \<and> userID_g g \<in> set (grabs (votes currentSong))
      \<longrightarrow> onGrab g st = Inr st)
 \<and> (handle cfg now ev st = Inr st'
      \<longrightarrow> (shift ev = 0 \<longrightarrow> length (playHistory st') = length (playHistory st))
        \<and> (\<forall>i. i + shift ev < length (playHistory st')
              \<longrightarrow> i < length (playHistory st)
                \<and> set (grabs (votes (playHistory st ! i)))
                    \<subseteq> set (grabs (votes (playHistory st' ! (i + shift ev))))))"
proof (intro conjI impI)
  assume "playHistory st = currentSong # older \<and> userID_g g \<in> set (grabs (votes currentSong))"
  then show "onGrab g st = Inr st" by (simp add: onGrab_def)
next
  assume h: "handle cfg now ev st = Inr st'" and "shift ev = 0"
  then show "length (playHistory st') = length (playHistory st)"
  proof (cases ev)
    case (GRAB e) with h show ?thesis using onGrab_grabs [of e st st'] by simp
  next
    case (VOTE e) with h show ?thesis using onVote_grabs [of e st st'] by simp
  next
    case (CHAT_DELETE e) with h show ?thesis using playHistory_onChatDelete [of now e st] by auto
  qed (use h in \<open>auto simp: onChat_def onRoomPlaylistQueueUpdate_def onUserLeave_def
            onUserJoin_def split: option.splits\<close>)
next
  assume h: "handle cfg now ev st = Inr st'"
  show "\<forall>i. i + shift ev < length (playHistory st')
              \<longrightarrow> i < length (playHistory st)
                \<and> set (grabs (votes (playHistory st ! i)))
                    \<subseteq> set (grabs (votes (playHistory st' ! (i + shift ev))))"
  proof (cases ev)
    case (ADVANCE e) with h show ?thesis using onAdvance_nth [of _ cfg e st] by auto
  next
    case (GRAB e) with h show ?thesis using onGrab_grabs [of e st st'] by simp
  next
    case (VOTE e) with h show ?thesis using onVote_grabs [of e st st'] by simp
  next
    case (CHAT_DELETE e) with h show ?thesis using playHistory_onChatDelete [of now e st] by auto
  qed (use h in \<open>auto simp: onChat_def onRoomPlaylistQueueUpdate_def onUserLeave_def
            onUserJoin_def split: option.splits\<close>)
qed

theorem grab_idempotent_monotone_witness:
  "userID_g (translateGrabEvent (JStr ''u1'')) \<in> set (grabs (votes (hd (playHistory sample_room))))
 \<and> onGrab (translateGrabEvent (JStr ''u1'')) sample_room = Inr sample_room
 \<and> (\<exists>st'. handle sample_config 2 (GRAB (translateGrabEvent (JStr ''u2''))) sample_room = Inr st'
        \<and> length (playHistory st') = 1
        \<and> JStr ''u1'' \<in> set (grabs (votes (playHistory st' ! 0))))"
proof -
  let ?cur = "(newPlay (sample_advance ''dj'' 1))
          \<lparr>votes := \<lparr>grabs = [JStr ''u1''], mehs = [], woots = []\<rparr>\<rparr>"
  have ph: "playHistory sample_room = ?cur # []"
    by (simp add: sample_room_def)
  have g: "userID_g (translateGrabEvent (JStr ''u1'')) \<in> set (grabs (votes ?cur))"
    by (simp add: translateGrabEvent_def)
  obtain st' where
    h: "handle sample_config 2 (GRAB (translateGrabEvent (JStr ''u2''))) sample_room = Inr st'"
    by (simp add: onGrab_def ph translateGrabEvent_def)
  note inst = grab_idempotent_monotone
         [of sample_room ?cur "[]" "translateGrabEvent (JStr ''u1'')" sample_config 2
             "GRAB (translateGrabEvent (JStr ''u2''))" st']
  from inst ph g have idem: "onGrab (translateGrabEvent (JStr ''u1'')) sample_room = Inr sample_room"
    by blast
  from inst h have len: "length (playHistory st') = length (playHistory sample_room)"
    by simp
  from inst h have mono: "\<forall>i. i + 0 < length (playHistory st')
          \<longrightarrow> set (grabs (votes (playHistory sample_room ! i)))
                \<subseteq> set (grabs (votes (playHistory st' ! (i + 0))))"
    by simp
  from len ph have len1: "length (playHistory st') = 1" by simp
  with mono have "set (grabs (votes (playHistory sample_room ! 0)))
                \<subseteq> set (grabs (votes (playHistory st' ! 0)))"
    by simp
  with ph have "JStr ''u1'' \<in> set (grabs (votes (playHistory st' ! 0)))"
    by auto
  with idem len1 h g ph show ?thesis by auto
qed

text \<open>
  Claim C10. The Grab handler and the Vote handler return exactly when the play history
  is not empty; on an empty play history each of them raises a TypeError, where it reads
  \<open>votes\<close> from the current play that is not there. The play history is empty after
  initialisation whenever the room has no current media or no current DJ.
\<close>

theorem grab_vote_need_current_play:
  "((\<exists>st'. onGrab g st = Inr st') \<longleftrightarrow> playHistory st \<noteq> [])
 \<and> ((\<exists>st'. onVote v st = Inr st') \<longleftrightarrow> playHistory st \<noteq> [])
 \<and> (playHistory st = [] \<longrightarrow> onGrab g st = Inl TypeError \<and> onVote v st = Inl TypeError)
 \<and> (getMedia = None \<or> getDJ = None
      \<longrightarrow> playHistory (init now getMedia getDJ users elapsedTime) = [])"
proof (intro conjI)
  show "(\<exists>st'. onGrab g st = Inr st') \<longleftrightarrow> playHistory st \<noteq> []"
    by (cases "playHistory st") (simp_all add: onGrab_def)
  show "(\<exists>st'. onVote v st = Inr st') \<longleftrightarrow> playHistory st \<noteq> []"
    by (cases "playHistory st") (simp_all add: onVote_def recordVote_def Let_def)
  show "playHistory st = [] \<longrightarrow> onGrab g st = Inl TypeError \<and> onVote v st = Inl TypeError"
    by (simp add: onGrab_def onVote_def recordVote_def)
  show "getMedia = None \<or> getDJ = None
      \<longrightarrow> playHistory (init now getMedia getDJ users elapsedTime) = []"
    by (auto simp: init_def populateUsers_def translateMediaObject_def translateUserObject_def
          empty_room_def split: option.splits)
qed

theorem grab_vote_need_current_play_witness:
  "playHistory empty_room = []
 \<and> onGrab (translateGrabEvent (JStr ''u1'')) empty_room = Inl TypeError
 \<and> onVote \<lparr>user_ve = Some (sample_user ''u1''), vote_ve = 1\<rparr> empty_room = Inl TypeError
 \<and> playHistory (init 0 None (Some (sample_dubapi_user ''dj'')) [] 0) = []"
proof -
  have e: "playHistory empty_room = []" by (simp add: empty_room_def)
  from grab_vote_need_current_play
         [of "translateGrabEvent (JStr ''u1'')" empty_room
             "\<lparr>user_ve = Some (sample_user ''u1''), vote_ve = 1\<rparr>"
             None "Some (sample_dubapi_user ''dj'')" 0 "[]" 0] e
  show ?thesis by simp
qed

section \<open>Command dispatch\<close>

text \<open>
  What the loop of the command handler calls, for a user whose role is defined: the
  handler of exactly the commands for which it is due, and the permissions handler of
  exactly those for which that one is due.
\<close>

lemma run_commands_calls:
  "\<exists>calls. run_commands cn (Some r) k cs = Inr calls
     \<and> (\<forall>j. Handler j \<in> set calls \<longleftrightarrow>
            k \<le> j \<and> j < k + length cs \<and> handler_due cn r (cs ! (j - k)))
     \<and> (\<forall>j. PermissionsHandler j \<in> set calls \<longleftrightarrow>
            k \<le> j \<and> j < k + length cs \<and> hook_due cn r (cs ! (j - k)))"
proof (induction cs arbitrary: k)
  case Nil
  show ?case by simp
next
  case (Cons c cs)
  from Cons.IH [of "Suc k"] obtain calls where
    run: "run_commands cn (Some r) (Suc k) cs = Inr calls"
    and H: "\<And>j. Handler j \<in> set calls \<longleftrightarrow>
            Suc k \<le> j \<and> j < Suc k + length cs \<and> handler_due cn r (cs ! (j - Suc k))"
    and P: "\<And>j. PermissionsHandler j \<in> set calls \<longleftrightarrow>
            Suc k \<le> j \<and> j < Suc k + length cs \<and> hook_due cn r (cs ! (j - Suc k))"
    by blast
  have nth: "(c # cs) ! (j - k) = cs ! (j - Suc k)" if "Suc k \<le> j" for j
  proof -
    from that have "j - k = Suc (j - Suc k)" by arith
    then show ?thesis by simp
  qed
  have split_j: "(k \<le> j \<and> j < k + length (c # cs) \<and> Q j)
       \<longleftrightarrow> (j = k \<and> Q k) \<or> (Suc k \<le> j \<and> j < Suc k + length cs \<and> Q j)" for Q j
  proof (cases "j = k")
    case True
    then show ?thesis by auto
  next
    case False
    then show ?thesis by auto
  qed
  define pre where "pre = (if handler_due cn r c then [Handler k] else [])
       @ (if hook_due cn r c then [PermissionsHandler k] else [])"
  have "run_commands cn (Some r) k (c # cs) = Inr (pre @ calls)"
    using run by (auto simp: pre_def handler_due_def hook_due_def prepend_def split: option.splits)
  moreover have "\<And>j. Handler j \<in> set (pre @ calls) \<longleftrightarrow>
            k \<le> j \<and> j < k + length (c # cs) \<and> handler_due cn r ((c # cs) ! (j - k))"
    unfolding split_j [where Q = "\<lambda>j. handler_due cn r ((c # cs) ! (j - k))"]
    using nth by (auto simp: pre_def H)
  moreover have "\<And>j. PermissionsHandler j \<in> set (pre @ calls) \<longleftrightarrow>
            k \<le> j \<and> j < k + length (c # cs) \<and> hook_due cn r ((c # cs) ! (j - k))"
    unfolding split_j [where Q = "\<lambda>j. hook_due cn r ((c # cs) ! (j - k))"]
    using nth by (auto simp: pre_def P)
  ultimately show ?case by blast
qed

text \<open>
  The role gate for a user whose role is defined. A chat event carries a non-empty command
  token and the role of its user. For every registered command (every index \<open>i\<close> of
  \<open>commands\<close>, so also the ones behind another match) that matches the token and
  declares a \<open>minimumRole\<close>: the command handler returns; if the level of the user's
  role is below that of the minimum, the command's \<open>insufficientPermissionsHandler\<close> is
  called exactly if it is registered and the command's \<open>handler\<close> is not called; if the
  level is at or above that of the minimum, the \<open>handler\<close> is called and the
  permissions handler is not.
\<close>

lemma role_gate_for_defined_role:
  assumes tok: "command_e ev = Some tok" "tok \<noteq> []"
    and role: "userRole_e ev = Some r"
    and i: "i < length commands"
    and m: "matches cfg tok (commands ! i)"
    and min: "minimumRole (commands ! i) = Some minRole"
  shows "\<exists>calls. commandHandler cfg commands ev = Inr calls
     \<and> (level r < level minRole \<longrightarrow>
           (PermissionsHandler i \<in> set calls
              \<longleftrightarrow> insufficientPermissionsHandler (commands ! i))
         \<and> Handler i \<notin> set calls)
     \<and> (level minRole \<le> level r \<longrightarrow>
           Handler i \<in> set calls \<and> PermissionsHandler i \<notin> set calls)"
proof -
  from run_commands_calls [of "commandName_of cfg tok" r 0 commands]
  obtain calls where
    run: "run_commands (commandName_of cfg tok) (Some r) 0 commands = Inr calls"
    and H: "\<And>j. Handler j \<in> set calls \<longleftrightarrow>
            j < length commands \<and> handler_due (commandName_of cfg tok) r (commands ! j)"
    and P: "\<And>j. PermissionsHandler j \<in> set calls \<longleftrightarrow>
            j < length commands \<and> hook_due (commandName_of cfg tok) r (commands ! j)"
    by auto
  have "commandHandler cfg commands ev = Inr calls"
    using tok role run by (simp add: commandHandler_def)
  moreover have "level r < level minRole \<longrightarrow>
           (PermissionsHandler i \<in> set calls
              \<longleftrightarrow> insufficientPermissionsHandler (commands ! i))
         \<and> Handler i \<notin> set calls"
    using i m min by (simp add: H P handler_due_def hook_due_def matches_def)
  moreover have "level minRole \<le> level r \<longrightarrow>
           Handler i \<in> set calls \<and> PermissionsHandler i \<notin> set calls"
    using i m min by (simp add: H P handler_due_def hook_due_def matches_def)
  ultimately show ?thesis by blast
qed

lemma role_gate_for_defined_role_example:
  "command_e (sample_command_event ''skip'' (Some DJ)) = Some ''skip''
 \<and> userRole_e (sample_command_event ''skip'' (Some DJ)) = Some DJ
 \<and> matches sample_config ''skip'' ([sample_command [''skip''] (Some MOD) True,
                                       sample_command [''skip''] (Some DJ) True] ! 0)
 \<and> matches sample_config ''skip'' ([sample_command [''skip''] (Some MOD) True,
                                       sample_command [''skip''] (Some DJ) True] ! 1)
 \<and> level DJ < level MOD \<and> level DJ \<le> level DJ
 \<and> commandHandler sample_config
      [sample_command [''skip''] (Some MOD) True, sample_command [''skip''] (Some DJ) True]
      (sample_command_event ''skip'' (Some DJ)) = Inr [PermissionsHandler 0, Handler 1]"
proof -
  let ?cs = "[sample_command [''skip''] (Some MOD) True, sample_command [''skip''] (Some DJ) True]"
  let ?ev = "sample_command_event ''skip'' (Some DJ)"
  have h1: "command_e ?ev = Some ''skip''" by (simp add: sample_command_event_def)
  have h2: "''skip'' \<noteq> []" by simp
  have h3: "userRole_e ?ev = Some DJ" by (simp add: sample_command_event_def)
  have h4: "(0::nat) < length ?cs" by simp
  have h5: "matches sample_config ''skip'' (?cs ! 0)" by code_simp
  have h6: "minimumRole (?cs ! 0) = Some MOD" by (simp add: sample_command_def)
  have g5: "matches sample_config ''skip'' (?cs ! 1)" by code_simp
  have lv: "level DJ < level MOD" "level DJ \<le> level DJ" by (simp_all add: DJ_def MOD_def)
  from role_gate_for_defined_role [OF h1 h2 h3 h4 h5 h6] lv
  obtain calls where c: "commandHandler sample_config ?cs ?ev = Inr calls"
    and "PermissionsHandler 0 \<in> set calls" "Handler 0 \<notin> set calls"
    by (auto simp: sample_command_def)
  have "commandHandler sample_config ?cs ?ev = Inr [PermissionsHandler 0, Handler 1]"
    by code_simp
  with c h1 h3 h5 g5 lv show ?thesis by simp
qed

text \<open>
  Claim C6. A user whose vendor role identifier is the manager's sends \<open>!skip\<close>.
  \<open>translateRole\<close> answers with \<open>Types.UserRole.MANAGER\<close>, which the role table
  does not have, so the translated event carries no role. Two commands are registered for
  \<open>skip\<close>: the first declares the minimum role MOD and a permissions handler, the
  second declares no minimum role. The command handler raises a TypeError at the first
  command, where it reads \<open>level\<close> from the role that is not there: neither the
  handler nor the permissions handler of the first command is called, and the second
  command is not reached, although registered alone it is called. For a user with the
  moderator's identifier both handlers are called, and for a user without a role
  identifier the permissions handler of the first and the handler of the second.
\<close>

theorem manager_command_raises:
  "(case translateChatEvent
           (sample_role_chat ''c1'' ''boss'' ''5615fd84e596150061000003'' ''!skip'') of
      Inl e \<Rightarrow> None
    | Inr ev \<Rightarrow> Some (userRole_e ev, command_e ev)) = Some (None, Some ''skip'')
 \<and> dispatch_command sample_config
      [sample_command [''skip''] (Some MOD) True, sample_command [''skip''] None False]
      (sample_role_chat ''c1'' ''boss'' ''5615fd84e596150061000003'' ''!skip'')
     = Inl TypeError
 \<and> dispatch_command sample_config [sample_command [''skip''] None False]
      (sample_role_chat ''c1'' ''boss'' ''5615fd84e596150061000003'' ''!skip'')
     = Inr [Handler 0]
 \<and> dispatch_command sample_config
      [sample_command [''skip''] (Some MOD) True, sample_command [''skip''] None False]
      (sample_role_chat ''c2'' ''mod'' ''52d1ce33c38a06510c000001'' ''!skip'')
     = Inr [Handler 0, Handler 1]
 \<and> dispatch_command sample_config
      [sample_command [''skip''] (Some MOD) True, sample_command [''skip''] None False]
      (sample_chat ''c3'' ''guest'' ''!skip'')
     = Inr [PermissionsHandler 0, Handler 1]"
  by code_simp

text \<open>
  Claim C7, as stated, fails: with commands not case-sensitive, the registered trigger
  \<open>Skip\<close> and the incoming token \<open>skip\<close> are equal ignoring letter case, and the
  command is not a match: the handler lower-cases the token and looks it up among the
  triggers as they are registered.
\<close>

theorem uppercase_trigger_counterexample:
  "toLowerCase ''skip'' = toLowerCase ''Skip''
 \<and> \<not> areCommandsCaseSensitive sample_config
 \<and> ''Skip'' \<in> set (triggers (sample_command [''Skip''] None False))
 \<and> \<not> matches sample_config ''skip'' (sample_command [''Skip''] None False)
 \<and> commandHandler sample_config [sample_command [''Skip''] None False]
      (sample_command_event ''skip'' (Some NONE)) = Inr []"
  by code_simp

text \<open>
  Claim C7, amended. With commands not case-sensitive, for every registered trigger that
  is in lower case already and every non-empty incoming token that equals it ignoring
  letter case, the command is a match: the loop's test on it succeeds, and the command
  handler calls the command's \<open>handler\<close> or its permissions handler as the role gate
  says.
\<close>

theorem lowercase_trigger_matches_ignoring_case:
  assumes insens: "\<not> areCommandsCaseSensitive cfg"
    and i: "i < length commands"
    and t: "t \<in> set (triggers (commands ! i))"
    and lower: "toLowerCase t = t"
    and same: "toLowerCase tok = toLowerCase t"
    and tok: "command_e ev = Some tok" "tok \<noteq> []"
    and role: "userRole_e ev = Some r"
  shows "matches cfg tok (commands ! i)
     \<and> (\<exists>calls. commandHandler cfg commands ev = Inr calls
           \<and> (Handler i \<in> set calls \<longleftrightarrow> handler_due (commandName_of cfg tok) r (commands ! i))
           \<and> (PermissionsHandler i \<in> set calls
                \<longleftrightarrow> hook_due (commandName_of cfg tok) r (commands ! i)))"
proof -
  have m: "matches cfg tok (commands ! i)"
    using insens t lower same by (simp add: matches_def commandName_of_def)
  from run_commands_calls [of "commandName_of cfg tok" r 0 commands]
  obtain calls where
    run: "run_commands (commandName_of cfg tok) (Some r) 0 commands = Inr calls"
    and H: "\<And>j. Handler j \<in> set calls \<longleftrightarrow>
            j < length commands \<and> handler_due (commandName_of cfg tok) r (commands ! j)"
    and P: "\<And>j. PermissionsHandler j \<in> set calls \<longleftrightarrow>
            j < length commands \<and> hook_due (commandName_of cfg tok) r (commands ! j)"
    by auto
  have "commandHandler cfg commands ev = Inr calls"
    using tok role run by (simp add: commandHandler_def)
  with m i H P show ?thesis by simp
qed

theorem lowercase_trigger_matches_ignoring_case_witness:
  "\<not> areCommandsCaseSensitive sample_config
 \<and> ''skip'' \<in> set (triggers ([sample_command [''skip''] None False] ! 0))
 \<and> toLowerCase ''skip'' = ''skip''
 \<and> toLowerCase ''SKIP'' = toLowerCase ''skip''
 \<and> matches sample_config ''SKIP'' ([sample_command [''skip''] None False] ! 0)
 \<and> commandHandler sample_config [sample_command [''skip''] None False]
      (sample_command_event ''SKIP'' (Some NONE)) = Inr [Handler 0]"
proof -
  have h1: "\<not> areCommandsCaseSensitive sample_config" by (simp add: sample_config_def)
  have h2: "(0::nat) < length [sample_command [''skip''] None False]" by simp
  have h3: "''skip'' \<in> set (triggers ([sample_command [''skip''] None False] ! 0))"
    by (simp add: sample_command_def)
  have h4: "toLowerCase ''skip'' = ''skip''" by code_simp
  have h5: "toLowerCase ''SKIP'' = toLowerCase ''skip''" by code_simp
  have h6: "command_e (sample_command_event ''SKIP'' (Some NONE)) = Some ''SKIP''"
    by (simp add: sample_command_event_def)
  have h7: "''SKIP'' \<noteq> []" by simp
  have h8: "userRole_e (sample_command_event ''SKIP'' (Some NONE)) = Some NONE"
    by (simp add: sample_command_event_def)
  have ev: "commandHandler sample_config [sample_command [''skip''] None False]
      (sample_command_event ''SKIP'' (Some NONE)) = Inr [Handler 0]" by code_simp
  from lowercase_trigger_matches_ignoring_case [OF h1 h2 h3 h4 h5 h6 h7 h8]
  have "matches sample_config ''SKIP'' ([sample_command [''skip''] None False] ! 0)" by simp
  with h1 h3 h4 h5 ev show ?thesis by simp
qed

section \<open>Chat deletion\<close>

text \<open>
  Claim C1. Four chat messages arrive in the order M1 (user A), M2 (user A), M3 (user B),
  M4 (user A), so the chat history holds them as M4, M3, M2, M1. A chat-delete event for
  M1 marks M1 alone: the second loop of the handler walks from the matched entry towards
  the end of the array, that is towards older messages, and M1 is the last entry. M2, the
  message that the same author sent next, stays unmarked. (A chat-delete event for M2
  marks M2 and the older M1.)
\<close>

theorem chat_delete_cascade_runs_to_older_messages:
  "(case dispatch_all sample_config
         [(1, Chat_message (sample_chat ''m1'' ''userA'' ''one'')),
          (2, Chat_message (sample_chat ''m2'' ''userA'' ''two'')),
          (3, Chat_message (sample_chat ''m3'' ''userB'' ''three'')),
          (4, Chat_message (sample_chat ''m4'' ''userA'' ''four'')),
          (5, Delete_chat_message (sample_chat_delete ''m1'' ''mod1''))] empty_room of
      Inl e \<Rightarrow> []
    | Inr st \<Rightarrow> deletion_marks st)
   = [(JStr ''m4'', False), (JStr ''m3'', False), (JStr ''m2'', False), (JStr ''m1'', True)]
 \<and> (case dispatch_all sample_config
         [(1, Chat_message (sample_chat ''m1'' ''userA'' ''one'')),
          (2, Chat_message (sample_chat ''m2'' ''userA'' ''two'')),
          (3, Chat_message (sample_chat ''m3'' ''userB'' ''three'')),
          (4, Chat_message (sample_chat ''m4'' ''userA'' ''four'')),
          (5, Delete_chat_message (sample_chat_delete ''m2'' ''mod1''))] empty_room of
      Inl e \<Rightarrow> []
    | Inr st \<Rightarrow> deletion_marks st)
   = [(JStr ''m4'', False), (JStr ''m3'', False), (JStr ''m2'', True), (JStr ''m1'', True)]"
  by code_simp

text \<open>
  Claim C2. The moderator \<open>mod1\<close> deletes M2 at time 5. The translated event carries the
  moderator's ID as \<open>deleterID\<close>. The handler marks M2 and M1 and records the deletion
  time 5 on both, and as the deleting user it records \<open>undefined\<close> on both: it reads
  \<open>modUserID\<close>, which the translated event does not have.
\<close>

theorem chat_delete_records_no_moderator:
  "(case translateChatDeleteEvent (sample_chat_delete ''m2'' ''mod1'') of
      Inl e \<Rightarrow> JUndefined
    | Inr ev \<Rightarrow> deleterID ev) = JStr ''mod1''
 \<and> (case dispatch_all sample_config
         [(1, Chat_message (sample_chat ''m1'' ''userA'' ''one'')),
          (2, Chat_message (sample_chat ''m2'' ''userA'' ''two'')),
          (5, Delete_chat_message (sample_chat_delete ''m2'' ''mod1''))] empty_room of
      Inl e \<Rightarrow> []
    | Inr st \<Rightarrow> deletion_records st)
   = [(JStr ''m2'', JUndefined, Some 5), (JStr ''m1'', JUndefined, Some 5)]"
  by code_simp

section \<open>Votes\<close>

lemma remove1_single:
  "count_list xs x \<le> 1 \<Longrightarrow> x \<notin> set (remove1 x xs)"
  by (induction xs) (auto simp: count_list_0_iff split: if_splits)

text \<open>
  The list handling of \<open>onVote\<close> does what it is there for: for a user ID that is at
  most once in each list, and a vote of 1 or -1, the ID is afterwards in the woots exactly
  for the vote 1 and in the mehs exactly for the vote -1, again at most once in each.
\<close>

lemma recordVote_last_vote_wins:
  assumes ph: "playHistory st = cur # older"
    and w: "count_list (woots (votes cur)) uid \<le> 1"
    and m: "count_list (mehs (votes cur)) uid \<le> 1"
    and v: "v = 1 \<or> v = -1"
  shows "\<exists>cur'. recordVote uid v st = Inr (st\<lparr>playHistory := cur' # older\<rparr>)
           \<and> (uid \<in> set (woots (votes cur')) \<longleftrightarrow> v = 1)
           \<and> (uid \<in> set (mehs (votes cur')) \<longleftrightarrow> v = -1)
           \<and> count_list (woots (votes cur')) uid \<le> 1
           \<and> count_list (mehs (votes cur')) uid \<le> 1"
  using v ph remove1_single [OF w] remove1_single [OF m] w m
  by (auto simp: recordVote_def Let_def count_list_0_iff)

text \<open>
  Claim C3. The room is initialised with a current play without votes. The user \<open>u1\<close>
  votes up: the woots of the current play are then the one entry \<open>undefined\<close>, and
  \<open>u1\<close> is in neither list. The user \<open>u2\<close> then votes down: the woots are empty and
  the mehs are the one entry \<open>undefined\<close>, so the vote of \<open>u1\<close> is gone. The handler
  keys the lists by \<open>event.userID\<close>, which a translated vote event does not have; the
  voter's ID is \<open>event.user.userID\<close>.
\<close>

theorem vote_stores_undefined_for_the_voter:
  "(case dispatch_all sample_config
         [(1, Room_playlist_dub (sample_vote ''updub'' ''u1''))]
         (init 0 (Some sample_dubapi_media) (Some (sample_dubapi_user ''dj'')) [] 0) of
      Inl e \<Rightarrow> None
    | Inr st \<Rightarrow> current_votes st) = Some ([JUndefined], [])
 \<and> (case dispatch_all sample_config
         [(1, Room_playlist_dub (sample_vote ''updub'' ''u1'')),
          (2, Room_playlist_dub (sample_vote ''downdub'' ''u2''))]
         (init 0 (Some sample_dubapi_media) (Some (sample_dubapi_user ''dj'')) [] 0) of
      Inl e \<Rightarrow> None
    | Inr st \<Rightarrow> current_votes st) = Some ([], [JUndefined])"
  by code_simp

section \<open>Chat classification\<close>

text \<open>
  Claim C5. The message \<open>/me dances\<close> is typed EMOTE, and the translated event carries
  it with its prefix: the \<open>message\<close> property is read before the prefix is cut off the
  payload. The message \<open>hello /me x\<close>, which does not begin with the prefix, is typed
  EMOTE as well: the test looks for the prefix anywhere in the message. The message
  \<open>!woot a b\<close> is typed COMMAND, with the command \<open>woot\<close> and the arguments \<open>a\<close>
  and \<open>b\<close>.
\<close>

theorem chat_classification_emote_slips:
  "(case translateChatEvent (sample_chat ''m1'' ''userA'' ''/me dances'') of
      Inl e \<Rightarrow> None
    | Inr ev \<Rightarrow> Some (type_e ev, message_e ev)) = Some (EMOTE, ''/me dances'')
 \<and> (case translateChatEvent (sample_chat ''m2'' ''userA'' ''hello /me x'') of
      Inl e \<Rightarrow> None
    | Inr ev \<Rightarrow> Some (type_e ev, message_e ev)) = Some (EMOTE, ''hello /me x'')
 \<and> (case translateChatEvent (sample_chat ''m3'' ''userA'' ''!woot a b'') of
      Inl e \<Rightarrow> None
    | Inr ev \<Rightarrow> Some (type_e ev, command_e ev, args_e ev))
     = Some (COMMAND, Some ''woot'', Some [''a'', ''b''])"
  by code_simp

section \<open>Outbound actions\<close>

text \<open>
  The six actions whose completion function tests the callback: they raise nothing, a
  request that was not queued is answered by one call of the callback with \<open>false\<close>
  when there is a callback, and the request they make is the same with and without one.
\<close>

lemma guarded_actions:
  "snd (forceSkip cb q) = Inr (if cb then [q] else [])"
  "snd (grabSong cb q) = Inr (if cb then [q] else [])"
  "snd (joinWaitList cb q) = Inr (if cb then [q] else [])"
  "snd (leaveWaitList cb q) = Inr (if cb then [q] else [])"
  "snd (mehSong cb q) = Inr (if cb then [q] else [])"
  "snd (wootSong cb q) = Inr (if cb then [q] else [])"
  "fst (forceSkip cb q) = ModerateForceSkip" "fst (grabSong cb q) = Grab"
  "fst (joinWaitList cb q) = JoinBooth" "fst (leaveWaitList cb q) = LeaveBooth"
  "fst (mehSong cb q) = Meh" "fst (wootSong cb q) = Woot"
  by (simp_all add: forceSkip_def grabSong_def joinWaitList_def leaveWaitList_def
        mehSong_def wootSong_def guarded_completion_def)

text \<open>
  Claim C8. \<open>moveDjInWaitList\<close> is called without a callback and the request is queued:
  when the request completes, the completion function calls the callback that is not
  there, which raises a TypeError. The other six actions, called in the same way, raise
  nothing.
\<close>

theorem move_dj_without_callback_raises:
  "moveDjInWaitList (JStr ''u1'') 1 False True = (ModerateMoveDJ (JStr ''u1'') 1, Inl TypeError)
 \<and> forceSkip False True = (ModerateForceSkip, Inr [])
 \<and> grabSong False True = (Grab, Inr [])
 \<and> joinWaitList False True = (JoinBooth, Inr [])
 \<and> leaveWaitList False True = (LeaveBooth, Inr [])
 \<and> mehSong False True = (Meh, Inr [])
 \<and> wootSong False True = (Woot, Inr [])"
  by (simp add: moveDjInWaitList_def forceSkip_def grabSong_def joinWaitList_def
        leaveWaitList_def mehSong_def wootSong_def guarded_completion_def
        unguarded_completion_def)

end
